theory Spec2Isabelle
  imports Complex_Main
begin

section \<open>Data model\<close>

text \<open>
  Python floats are modelled as real numbers: arithmetic is exact, there are no
  infinities and no NaN. Where the doubles of the code round or overflow, the model
  does not follow them: the squared distances of the nearest-node search neither tie
  by rounding nor overflow to infinity, and the \<open>h\<close> of the haversine formula never
  exceeds 1. Every exception the code can raise is a value of \<open>error\<close>; a function that
  can raise returns \<open>error + 'a\<close> with \<open>Inl\<close> for the exception raised and \<open>Inr\<close> for the
  value returned.
\<close>

datatype error =
    RuntimeError
  | KeyError
  | TypeError
  | ValueError
  | ZeroDivisionError
  | ValidationError
  | NodeNotFound
  | NetworkXNoPath
  | FetchError

text \<open>\<open>app/models/routing.py\<close>: \<open>Coordinate\<close>, \<open>RouteRequest\<close>, \<open>RouteStep\<close>,
  \<open>RouteSummary\<close>, \<open>RouteResponse\<close>. A coordinate pair of the geometry is
  \<open>[lat, lon]\<close>. The text of a warning is not modelled, only the distance it reports.\<close>

record Coordinate =
  lat :: real
  lon :: real

record RouteRequest =
  origin :: Coordinate
  destination :: Coordinate

record RouteStep =
  from_node :: int
  to_node :: int
  step_distance_m :: real
  step_duration_s :: real

record RouteSummary =
  summary_distance_m :: real
  summary_duration_s :: real
  summary_geometry :: "(real \<times> real) list"

datatype warning = RouteTooLong real

record RouteResponse =
  distance_m :: real
  duration_s :: real
  geometry :: "(real \<times> real) list"
  summary :: RouteSummary
  steps :: "RouteStep list"
  warnings :: "warning list"

text \<open>
  The \<open>networkx.MultiDiGraph\<close> the services work on. A node carries the attributes
  \<open>x\<close> (longitude, \<open>node_x\<close>) and \<open>y\<close> (latitude, \<open>node_y\<close>), either of which
  may be absent. An edge carries
  \<open>length\<close> (absent or \<open>None\<close>; \<open>Num r\<close>, an object other than a string that \<open>float()\<close>
  converts to \<open>r\<close>; \<open>Str s\<close>, a string; \<open>Obj\<close>, an object other than a string that
  \<open>float()\<close> rejects with \<open>TypeError\<close> or \<open>ValueError\<close>, such as a list), \<open>weight\<close> (absent or
  a float: the repository only ever stores \<open>float(...)\<close> there) and \<open>geometry\<close>
  (absent or the \<open>(x, y)\<close> points of a line string). Nodes and edges are kept in
  insertion order; parallel edges are successive entries with the same end points,
  so the first key of \<open>G.get_edge_data(u, v)\<close> is the first such entry.
\<close>

datatype pyval = Num real | Str string | Obj

record node_data =
  node_x :: "real option"
  node_y :: "real option"

record edge_data =
  length_attr :: "pyval option"
  weight :: "real option"
  geometry_attr :: "(real \<times> real) list option"

record graph =
  nodes :: "(int \<times> node_data) list"
  edges :: "(int \<times> int \<times> edge_data) list"

text \<open>The graph manager's mutable fields; \<open>bbox\<close> is \<open>(north, south, east, west)\<close>.\<close>

record manager =
  graph_of :: "graph option"
  bbox :: "(real \<times> real \<times> real \<times> real) option"

text \<open>
  What the code takes from outside the repository: the test switch
  (\<open>"PYTEST_CURRENT_TEST" in os.environ\<close>), \<open>osmnx.graph_from_point\<close> (centre
  \<open>(lat, lon)\<close> and radius), \<open>osmnx.distance.nearest_nodes\<close> (graph, \<open>X\<close>, \<open>Y\<close>) and
  Python's \<open>float(str)\<close>, which is \<open>None\<close> here where Python raises \<open>ValueError\<close>; and
  \<open>nx_search\<close>, the answer of \<open>networkx.shortest_path\<close> (graph, source, target) on the
  inputs for which the library's contract does not fix it.
\<close>

record env =
  pytest :: bool
  graph_from_point :: "real \<times> real \<Rightarrow> real \<Rightarrow> error + graph"
  nearest_nodes :: "graph \<Rightarrow> real \<Rightarrow> real \<Rightarrow> error + int"
  parse_float :: "string \<Rightarrow> real option"
  nx_search :: "graph \<Rightarrow> int \<Rightarrow> int \<Rightarrow> error + int list"

section \<open>Arithmetic helpers\<close>

text \<open>Python's \<open>/\<close> on floats raises \<open>ZeroDivisionError\<close> on a zero divisor;
  \<open>math.sqrt\<close> raises \<open>ValueError\<close> on a negative argument.\<close>

definition py_div :: "real \<Rightarrow> real \<Rightarrow> error + real" where
  "py_div a b = (if b = 0 then Inl ZeroDivisionError else Inr (a / b))"

definition math_sqrt :: "real \<Rightarrow> error + real" where
  "math_sqrt v = (if v < 0 then Inl ValueError else Inr (sqrt v))"

definition math_radians :: "real \<Rightarrow> real" where
  "math_radians d = d * pi / 180"

text \<open>\<open>math.atan2(y, x)\<close>, the angle of the point \<open>(x, y)\<close> in \<open>(-pi, pi]\<close>.\<close>

definition math_atan2 :: "real \<Rightarrow> real \<Rightarrow> real" where
  "math_atan2 b a =
     (if 0 < a then arctan (b / a)
      else if a < 0 then (if 0 \<le> b then arctan (b / a) + pi else arctan (b / a) - pi)
      else if 0 < b then pi / 2
      else if b < 0 then - (pi / 2)
      else 0)"

section \<open>\<open>GraphManager\<close>\<close>

definition MAX_GRAPH_RADIUS_M :: real where
  "MAX_GRAPH_RADIUS_M = 15000"

subsection \<open>\<open>_haversine_distance_m\<close>\<close>

text \<open>The value \<open>h\<close> of the haversine formula, and the returned expression
  \<open>R * 2 * math.atan2(math.sqrt(h), math.sqrt(1 - h))\<close> as a function of \<open>h\<close>.\<close>

definition haversine_h :: "Coordinate \<Rightarrow> Coordinate \<Rightarrow> real" where
  "haversine_h a b =
     (let lat1 = math_radians (lat a); lon1 = math_radians (lon a);
          lat2 = math_radians (lat b); lon2 = math_radians (lon b);
          dlat = lat2 - lat1; dlon = lon2 - lon1
      in (sin (dlat / 2))\<^sup>2 + cos lat1 * cos lat2 * (sin (dlon / 2))\<^sup>2)"

definition haversine_of_h :: "real \<Rightarrow> error + real" where
  "haversine_of_h h =
     (case math_sqrt h of
        Inl e \<Rightarrow> Inl e
      | Inr s1 \<Rightarrow>
          (case math_sqrt (1 - h) of
             Inl e \<Rightarrow> Inl e
           | Inr s2 \<Rightarrow> Inr (6371000 * 2 * math_atan2 s1 s2)))"

definition haversine_distance_m :: "Coordinate \<Rightarrow> Coordinate \<Rightarrow> error + real" where
  "haversine_distance_m a b = haversine_of_h (haversine_h a b)"

subsection \<open>\<open>_bbox_contains_points\<close> and \<open>_build_dummy_graph_for_tests\<close>\<close>

fun bbox_loop :: "real \<times> real \<times> real \<times> real \<Rightarrow> Coordinate list \<Rightarrow> bool" where
  "bbox_loop b [] = True"
| "bbox_loop (north, south, east, west) (c # cs) =
     (if \<not> (south \<le> lat c \<and> lat c \<le> north \<and> west \<le> lon c \<and> lon c \<le> east) then False
      else bbox_loop (north, south, east, west) cs)"

definition bbox_contains_points :: "manager \<Rightarrow> Coordinate \<Rightarrow> Coordinate \<Rightarrow> bool" where
  "bbox_contains_points m orig dest =
     (case bbox m of None \<Rightarrow> False | Some b \<Rightarrow> bbox_loop b [orig, dest])"

definition dummy_edge :: "int \<Rightarrow> int \<Rightarrow> real \<Rightarrow> int \<times> int \<times> edge_data" where
  "dummy_edge u v length_m =
     (u, v, \<lparr>length_attr = Some (Num length_m), weight = Some length_m, geometry_attr = None\<rparr>)"

definition build_dummy_graph_for_tests :: graph where
  "build_dummy_graph_for_tests =
     \<lparr>nodes = [(1, \<lparr>node_x = Some 9.19, node_y = Some 45.4642\<rparr>),
               (2, \<lparr>node_x = Some 9.22, node_y = Some 45.4720\<rparr>),
               (3, \<lparr>node_x = Some 9.25, node_y = Some 45.4800\<rparr>)],
      edges = [dummy_edge 1 2 1000, dummy_edge 2 3 1500, dummy_edge 1 3 2600]\<rparr>"

subsection \<open>\<open>_ensure_numeric_weights\<close>\<close>

text \<open>One pass of the loop body. Only \<open>weight\<close> is written; an edge the loop leaves
  with \<open>continue\<close> is returned as it came. The haversine call is outside the \<open>try\<close>, so
  its exception leaves the function.\<close>

definition normalise_edge ::
  "env \<Rightarrow> graph \<Rightarrow> int \<times> int \<times> edge_data \<Rightarrow> error + (int \<times> int \<times> edge_data)" where
  "normalise_edge E G e =
     (case e of (u, v, d) \<Rightarrow>
        (let len = (case length_attr d of
                      Some (Str s) \<Rightarrow> (case parse_float E s of None \<Rightarrow> None | Some r \<Rightarrow> Some (Num r))
                    | other \<Rightarrow> other)
         in (case len of
              None \<Rightarrow>
                (case map_of (nodes G) u of
                   None \<Rightarrow> Inl KeyError
                 | Some nu \<Rightarrow>
                     (case map_of (nodes G) v of
                        None \<Rightarrow> Inl KeyError
                      | Some nv \<Rightarrow>
                          (case node_y nu of None \<Rightarrow> Inr e | Some lat_u \<Rightarrow>
                          (case node_x nu of None \<Rightarrow> Inr e | Some lon_u \<Rightarrow>
                          (case node_y nv of None \<Rightarrow> Inr e | Some lat_v \<Rightarrow>
                          (case node_x nv of None \<Rightarrow> Inr e | Some lon_v \<Rightarrow>
                             (case haversine_distance_m \<lparr>lat = lat_u, lon = lon_u\<rparr>
                                                        \<lparr>lat = lat_v, lon = lon_v\<rparr> of
                                Inl err \<Rightarrow> Inl err
                              | Inr r \<Rightarrow> Inr (u, v, d\<lparr>weight := Some r\<rparr>))))))))
            | Some (Num r) \<Rightarrow> Inr (u, v, d\<lparr>weight := Some r\<rparr>)
            | Some other \<Rightarrow> Inr e)))"

fun normalise_edges ::
  "env \<Rightarrow> graph \<Rightarrow> (int \<times> int \<times> edge_data) list \<Rightarrow> error + (int \<times> int \<times> edge_data) list" where
  "normalise_edges E G [] = Inr []"
| "normalise_edges E G (e # es) =
     (case normalise_edge E G e of
        Inl err \<Rightarrow> Inl err
      | Inr e' \<Rightarrow>
          (case normalise_edges E G es of
             Inl err \<Rightarrow> Inl err
           | Inr es' \<Rightarrow> Inr (e' # es')))"

definition ensure_numeric_weights :: "env \<Rightarrow> graph \<Rightarrow> error + graph" where
  "ensure_numeric_weights E G =
     (case normalise_edges E G (edges G) of
        Inl err \<Rightarrow> Inl err
      | Inr es \<Rightarrow> Inr (G\<lparr>edges := es\<rparr>))"

subsection \<open>\<open>_build_graph_for_points\<close> and \<open>ensure_graph_for_points\<close>\<close>

fun min_of :: "real list \<Rightarrow> real" where
  "min_of [] = 0"
| "min_of (v # vs) = foldl min v vs"

fun max_of :: "real list \<Rightarrow> real" where
  "max_of [] = 0"
| "max_of (v # vs) = foldl max v vs"

text \<open>The radius of line 149, as a function of the distance between the end points.\<close>

definition radius_m :: "real \<Rightarrow> real" where
  "radius_m d = min (1.5 * d + 2000) MAX_GRAPH_RADIUS_M"

definition derive_bbox :: "graph \<Rightarrow> real \<Rightarrow> real \<Rightarrow> real \<times> real \<times> real \<times> real" where
  "derive_bbox G center_lat center_lon =
     (let xs = List.map_filter (\<lambda>(n, nd). node_x nd) (nodes G);
          ys = List.map_filter (\<lambda>(n, nd). node_y nd) (nodes G)
      in if xs \<noteq> [] \<and> ys \<noteq> [] then (max_of ys, min_of ys, max_of xs, min_of xs)
         else (center_lat + 1, center_lat - 1, center_lon + 1, center_lon - 1))"

text \<open>The fields are assigned only at the end, so an exception leaves the manager as
  it was: the function returns the new manager or the exception.\<close>

definition build_graph_for_points :: "env \<Rightarrow> manager \<Rightarrow> Coordinate \<Rightarrow> Coordinate \<Rightarrow> error + manager" where
  "build_graph_for_points E m orig dest =
     (if pytest E then
        Inr \<lparr>graph_of = Some build_dummy_graph_for_tests, bbox = Some (90, -90, 180, -180)\<rparr>
      else
        (case haversine_distance_m orig dest of
           Inl err \<Rightarrow> Inl err
         | Inr od_distance \<Rightarrow>
             (let center_lat = (lat orig + lat dest) / 2;
                  center_lon = (lon orig + lon dest) / 2
              in case graph_from_point E (center_lat, center_lon) (radius_m od_distance) of
                   Inl err \<Rightarrow> Inl err
                 | Inr G0 \<Rightarrow>
                     (case ensure_numeric_weights E G0 of
                        Inl err \<Rightarrow> Inl err
                      | Inr G \<Rightarrow>
                          Inr \<lparr>graph_of = Some G,
                               bbox = Some (derive_bbox G center_lat center_lon)\<rparr>))))"

definition ensure_graph_for_points :: "env \<Rightarrow> manager \<Rightarrow> Coordinate \<Rightarrow> Coordinate \<Rightarrow> error + manager" where
  "ensure_graph_for_points E m orig dest =
     (if graph_of m = None \<or> \<not> bbox_contains_points m orig dest
      then build_graph_for_points E m orig dest
      else Inr m)"

subsection \<open>\<open>find_nearest_node\<close>\<close>

text \<open>The test-mode search: \<open>best_dist\<close> starts at infinity (\<open>None\<close> here), nodes
  without both coordinates are skipped, and only a strictly smaller distance replaces
  the node found so far.\<close>

fun nearest_loop ::
  "Coordinate \<Rightarrow> (int \<times> node_data) list \<Rightarrow> int option \<times> real option \<Rightarrow> int option \<times> real option" where
  "nearest_loop c [] acc = acc"
| "nearest_loop c ((node_id, nd) # rest) (nearest, best) =
     (case node_x nd of
        None \<Rightarrow> nearest_loop c rest (nearest, best)
      | Some vx \<Rightarrow>
          (case node_y nd of
             None \<Rightarrow> nearest_loop c rest (nearest, best)
           | Some vy \<Rightarrow>
               (let dx = vx - lon c; dy = vy - lat c; d2 = dx * dx + dy * dy
                in if (case best of None \<Rightarrow> True | Some bd \<Rightarrow> d2 < bd)
                   then nearest_loop c rest (Some node_id, Some d2)
                   else nearest_loop c rest (nearest, best))))"

text \<open>Outside tests the node comes from osmnx; the log line then formats the node's
  \<open>y\<close> and \<open>x\<close> with \<open>:.6f\<close>, which raises \<open>KeyError\<close> for a node that is not in the
  graph and \<open>TypeError\<close> for an absent coordinate.\<close>

definition find_nearest_node :: "env \<Rightarrow> manager \<Rightarrow> Coordinate \<Rightarrow> error + int" where
  "find_nearest_node E m c =
     (case graph_of m of
        None \<Rightarrow> Inl RuntimeError
      | Some G \<Rightarrow>
          if pytest E then
            (case fst (nearest_loop c (nodes G) (None, None)) of
               None \<Rightarrow> Inl RuntimeError
             | Some n \<Rightarrow> Inr n)
          else
            (case nearest_nodes E G (lon c) (lat c) of
               Inl err \<Rightarrow> Inl err
             | Inr n \<Rightarrow>
                 (case map_of (nodes G) n of
                    None \<Rightarrow> Inl KeyError
                  | Some nd \<Rightarrow>
                      if node_y nd = None \<or> node_x nd = None then Inl TypeError else Inr n)))"

section \<open>The library call \<open>networkx.shortest_path\<close>\<close>

text \<open>
  \<open>nx.shortest_path(G, source, target, weight="weight")\<close> is not code of the
  repository. It is modelled by what the library's contract fixes: \<open>NodeNotFound\<close>
  when an end point is not a node of \<open>G\<close>; the one-node path when source and target
  coincide; and, on a graph without negative weights, \<open>NetworkXNoPath\<close> when there is no
  path and the path of least total weight when all weights are positive and that path
  is the only one of least weight. An edge without the attribute counts 1 and parallel
  edges count their least weight. The candidates are the simple paths, enumerated
  depth first over the adjacency in order of first insertion. Where the contract
  leaves the answer open (some weight negative, where Dijkstra's algorithm may return
  another path or raise \<open>ValueError\<close>; several paths of least weight, where the choice
  follows the library's queue; some weight 0, where a walk around a cycle of weight 0
  ties with the least path) the answer is the parameter \<open>nx_search\<close>.
\<close>

definition has_node :: "graph \<Rightarrow> int \<Rightarrow> bool" where
  "has_node G n = (n \<in> set (map fst (nodes G)))"

definition successors :: "graph \<Rightarrow> int \<Rightarrow> int list" where
  "successors G u =
     rev (remdups (rev (map (\<lambda>(a, b, d). b) (filter (\<lambda>(a, b, d). a = u) (edges G)))))"

definition attr_weight :: "edge_data \<Rightarrow> real" where
  "attr_weight d = (case weight d of None \<Rightarrow> 1 | Some w \<Rightarrow> w)"

definition edge_cost :: "graph \<Rightarrow> int \<Rightarrow> int \<Rightarrow> real" where
  "edge_cost G u v =
     min_of (map (\<lambda>(a, b, d). attr_weight d) (filter (\<lambda>(a, b, d). a = u \<and> b = v) (edges G)))"

fun path_cost :: "graph \<Rightarrow> int list \<Rightarrow> real" where
  "path_cost G (u # v # rest) = edge_cost G u v + path_cost G (v # rest)"
| "path_cost G p = 0"

fun simple_paths :: "graph \<Rightarrow> nat \<Rightarrow> int list \<Rightarrow> int \<Rightarrow> int \<Rightarrow> int list list" where
  "simple_paths G 0 seen u t = (if u = t then [[u]] else [])"
| "simple_paths G (Suc k) seen u t =
     (if u = t then [[u]]
      else concat (map (\<lambda>v. map ((#) u) (simple_paths G k (u # seen) v t))
                       (filter (\<lambda>v. v \<notin> set (u # seen)) (successors G u))))"

definition nonnegative_weights :: "graph \<Rightarrow> bool" where
  "nonnegative_weights G = list_all (\<lambda>(a, b, d). 0 \<le> attr_weight d) (edges G)"

definition positive_weights :: "graph \<Rightarrow> bool" where
  "positive_weights G = list_all (\<lambda>(a, b, d). 0 < attr_weight d) (edges G)"

definition least_paths :: "graph \<Rightarrow> int list list \<Rightarrow> int list list" where
  "least_paths G ps = filter (\<lambda>p. list_all (\<lambda>q. path_cost G p \<le> path_cost G q) ps) ps"

definition shortest_path :: "env \<Rightarrow> graph \<Rightarrow> int \<Rightarrow> int \<Rightarrow> error + int list" where
  "shortest_path E G s t =
     (if \<not> has_node G s then Inl NodeNotFound
      else if \<not> has_node G t then Inl NodeNotFound
      else if s = t then Inr [s]
      else if \<not> nonnegative_weights G then nx_search E G s t
      else (case simple_paths G (length (nodes G)) [] s t of
              [] \<Rightarrow> Inl NetworkXNoPath
            | p # ps \<Rightarrow>
                (case least_paths G (p # ps) of
                   [q] \<Rightarrow> if positive_weights G then Inr q else nx_search E G s t
                 | other \<Rightarrow> nx_search E G s t)))"

section \<open>\<open>RoutingService\<close>\<close>

subsection \<open>\<open>_compute_duration_from_distance\<close>\<close>

definition DEFAULT_SPEED_KMH :: real where
  "DEFAULT_SPEED_KMH = 40"

definition compute_duration_from_distance :: "real \<Rightarrow> error + real" where
  "compute_duration_from_distance d =
     (if d \<le> 0 then Inr 0
      else let speed_mps = DEFAULT_SPEED_KMH * 1000 / 3600
           in if speed_mps \<le> 0 then Inr 0 else py_div d speed_mps)"

subsection \<open>\<open>_build_coordinates_from_path\<close>\<close>

text \<open>\<open>G.get_edge_data(u, v)\<close> followed by the first key: the first edge from \<open>u\<close> to
  \<open>v\<close>, if there is one.\<close>

definition first_edge_data :: "graph \<Rightarrow> int \<Rightarrow> int \<Rightarrow> edge_data option" where
  "first_edge_data G u v =
     (case find (\<lambda>(a, b, d). a = u \<and> b = v) (edges G) of
        None \<Rightarrow> None
      | Some (a, b, d) \<Rightarrow> Some d)"

text \<open>The loop over \<open>i\<close>, on the pairs \<open>(path[i], path[i + 1])\<close>. A coordinate is a pair
  \<open>[lat, lon]\<close> whose entries are \<open>None\<close> where the node lacks the attribute.\<close>

fun coords_loop ::
  "graph \<Rightarrow> nat \<Rightarrow> (int \<times> int) list \<Rightarrow> (real option \<times> real option) list
     \<Rightarrow> error + (real option \<times> real option) list" where
  "coords_loop G i [] coords = Inr coords"
| "coords_loop G i ((u, v) # rest) coords =
     (case (case first_edge_data G u v of None \<Rightarrow> None | Some d \<Rightarrow> geometry_attr d) of
        Some pts \<Rightarrow>
          coords_loop G (Suc i) rest
            (coords @ map (\<lambda>(px, py). (Some py, Some px)) (if 0 < i then drop 1 pts else pts))
      | None \<Rightarrow>
          (case map_of (nodes G) u of
             None \<Rightarrow> Inl KeyError
           | Some node_u \<Rightarrow>
               (case map_of (nodes G) v of
                  None \<Rightarrow> Inl KeyError
                | Some node_v \<Rightarrow>
                    coords_loop G (Suc i) rest
                      (coords @ (if i = 0 then [(node_y node_u, node_x node_u)] else [])
                              @ [(node_y node_v, node_x node_v)]))))"

definition build_coordinates_from_path ::
  "graph \<Rightarrow> int list \<Rightarrow> error + (real option \<times> real option) list" where
  "build_coordinates_from_path G path =
     (case path of
        [] \<Rightarrow> Inr []
      | [node_id] \<Rightarrow>
          (case map_of (nodes G) node_id of
             None \<Rightarrow> Inl KeyError
           | Some nd \<Rightarrow> Inr [(node_y nd, node_x nd)])
      | _ \<Rightarrow> coords_loop G 0 (zip path (tl path)) [])"

subsection \<open>\<open>_build_steps_from_path\<close>\<close>

fun steps_loop ::
  "graph \<Rightarrow> real \<Rightarrow> (int \<times> int) list \<Rightarrow> RouteStep list \<times> real \<Rightarrow> error + (RouteStep list \<times> real)" where
  "steps_loop G speed_mps [] acc = Inr acc"
| "steps_loop G speed_mps ((u, v) # rest) (sts, total_distance) =
     (case first_edge_data G u v of
        None \<Rightarrow> steps_loop G speed_mps rest (sts, total_distance)
      | Some d \<Rightarrow>
          (case weight d of
             None \<Rightarrow> steps_loop G speed_mps rest (sts, total_distance)
           | Some w \<Rightarrow>
               (case py_div w speed_mps of
                  Inl err \<Rightarrow> Inl err
                | Inr dur \<Rightarrow>
                    steps_loop G speed_mps rest
                      (sts @ [\<lparr>from_node = u, to_node = v,
                               step_distance_m = w, step_duration_s = dur\<rparr>],
                       total_distance + w))))"

definition build_steps_from_path :: "graph \<Rightarrow> int list \<Rightarrow> error + (RouteStep list \<times> real)" where
  "build_steps_from_path G path =
     (if length path < 2 then Inr ([], 0)
      else let speed0 = DEFAULT_SPEED_KMH * 1000 / 3600;
               speed_mps = (if speed0 \<le> 0 then 1 else speed0)
           in steps_loop G speed_mps (zip (butlast path) (tl path)) ([], 0))"

subsection \<open>\<open>compute_route\<close>\<close>

text \<open>\<open>RouteGeometry\<close> and \<open>RouteSummary\<close> declare lists of floats: pydantic rejects a
  coordinate that is \<open>None\<close>.\<close>

fun validate_coordinates :: "(real option \<times> real option) list \<Rightarrow> error + (real \<times> real) list" where
  "validate_coordinates [] = Inr []"
| "validate_coordinates ((Some a, Some b) # rest) =
     (case validate_coordinates rest of Inl err \<Rightarrow> Inl err | Inr cs \<Rightarrow> Inr ((a, b) # cs))"
| "validate_coordinates (c # rest) = Inl ValidationError"

text \<open>Steps 4 to 6 and the response, from the path on.\<close>

definition route_of_path :: "graph \<Rightarrow> int list \<Rightarrow> error + RouteResponse" where
  "route_of_path G path =
     (case build_coordinates_from_path G path of
        Inl err \<Rightarrow> Inl err
      | Inr coords \<Rightarrow>
          (case build_steps_from_path G path of
             Inl err \<Rightarrow> Inl err
           | Inr (sts, dist_m) \<Rightarrow>
               (case compute_duration_from_distance dist_m of
                  Inl err \<Rightarrow> Inl err
                | Inr dur_s \<Rightarrow>
                    (case validate_coordinates coords of
                       Inl err \<Rightarrow> Inl err
                     | Inr cs \<Rightarrow>
                         Inr \<lparr>distance_m = dist_m, duration_s = dur_s, geometry = cs,
                              summary = \<lparr>summary_distance_m = dist_m,
                                         summary_duration_s = dur_s,
                                         summary_geometry = cs\<rparr>,
                              steps = sts,
                              warnings = (if dist_m > 2 * MAX_GRAPH_RADIUS_M
                                          then [RouteTooLong dist_m] else [])\<rparr>))))"

text \<open>The whole request. The manager is returned with the result, since the graph
  built in step 1 stays cached when a later step raises.\<close>

definition compute_route :: "env \<Rightarrow> manager \<Rightarrow> RouteRequest \<Rightarrow> (error + RouteResponse) \<times> manager" where
  "compute_route E m request =
     (case ensure_graph_for_points E m (origin request) (destination request) of
        Inl err \<Rightarrow> (Inl err, m)
      | Inr m1 \<Rightarrow>
          (case graph_of m1 of
             None \<Rightarrow> (Inl RuntimeError, m1)
           | Some G \<Rightarrow>
               (case find_nearest_node E m1 (origin request) of
                  Inl err \<Rightarrow> (Inl err, m1)
                | Inr origin_node \<Rightarrow>
                    (case find_nearest_node E m1 (destination request) of
                       Inl err \<Rightarrow> (Inl err, m1)
                     | Inr destination_node \<Rightarrow>
                         (case shortest_path E G origin_node destination_node of
                            Inl err \<Rightarrow> (Inl err, m1)
                          | Inr path \<Rightarrow> (route_of_path G path, m1))))))"

section \<open>The endpoint of \<open>routes_routing.py\<close>\<close>

text \<open>The handler of \<open>POST /route/\<close> returns what \<open>compute_route\<close> returns, on the one
  shared manager. It has no \<open>try\<close>: an exception of \<open>compute_route\<close> leaves the handler
  as it came.\<close>

definition routes_compute_route ::
  "env \<Rightarrow> manager \<Rightarrow> RouteRequest \<Rightarrow> (error + RouteResponse) \<times> manager" where
  "routes_compute_route E m request = compute_route E m request"

section \<open>Reachability and concrete inputs\<close>

text \<open>The edge relation of a graph; a target is reachable from a source when the pair
  is in its reflexive transitive closure.\<close>

definition edge_rel :: "graph \<Rightarrow> (int \<times> int) set" where
  "edge_rel G = {(u, v). \<exists>d. (u, v, d) \<in> set (edges G)}"

text \<open>The request of \<open>tests/test_route_dummy.py\<close>, run under pytest on a fresh manager,
  and the response and manager it leaves.\<close>

definition test_env :: env where
  "test_env = \<lparr>pytest = True, graph_from_point = (\<lambda>c r. Inl FetchError),
               nearest_nodes = (\<lambda>G vx vy. Inl FetchError), parse_float = (\<lambda>s. None),
               nx_search = (\<lambda>G s t. Inl ValueError)\<rparr>"

definition empty_manager :: manager where
  "empty_manager = \<lparr>graph_of = None, bbox = None\<rparr>"

definition dummy_manager :: manager where
  "dummy_manager = \<lparr>graph_of = Some build_dummy_graph_for_tests, bbox = Some (90, -90, 180, -180)\<rparr>"

definition test_request :: RouteRequest where
  "test_request = \<lparr>origin = \<lparr>lat = 45.4642, lon = 9.19\<rparr>, destination = \<lparr>lat = 45.48, lon = 9.25\<rparr>\<rparr>"

definition test_response :: RouteResponse where
  "test_response =
     \<lparr>distance_m = 2500, duration_s = 225,
      geometry = [(45.4642, 9.19), (45.4720, 9.22), (45.48, 9.25)],
      summary = \<lparr>summary_distance_m = 2500, summary_duration_s = 225,
                 summary_geometry = [(45.4642, 9.19), (45.4720, 9.22), (45.48, 9.25)]\<rparr>,
      steps = [\<lparr>from_node = 1, to_node = 2, step_distance_m = 1000, step_duration_s = 90\<rparr>,
               \<lparr>from_node = 2, to_node = 3, step_distance_m = 1500, step_duration_s = 135\<rparr>],
      warnings = []\<rparr>"

text \<open>A manager whose cached box is north 46, south 45, east 10, west 9.\<close>

definition milan_box_manager :: manager where
  "milan_box_manager = \<lparr>graph_of = Some build_dummy_graph_for_tests, bbox = Some (46, 45, 10, 9)\<rparr>"

text \<open>The request of the tests with origin and destination exchanged.\<close>

definition reverse_request :: RouteRequest where
  "reverse_request = \<lparr>origin = \<lparr>lat = 45.48, lon = 9.25\<rparr>, destination = \<lparr>lat = 45.4642, lon = 9.19\<rparr>\<rparr>"

text \<open>A request whose origin and destination are both the position of node 1.\<close>

definition same_point_request :: RouteRequest where
  "same_point_request = \<lparr>origin = \<lparr>lat = 45.4642, lon = 9.19\<rparr>, destination = \<lparr>lat = 45.4642, lon = 9.19\<rparr>\<rparr>"

text \<open>An environment outside pytest whose map source answers only for the radius 2000.\<close>

definition osm_env :: env where
  "osm_env = \<lparr>pytest = False,
              graph_from_point = (\<lambda>c r. if r = 2000 then Inr build_dummy_graph_for_tests
                                        else Inl FetchError),
              nearest_nodes = (\<lambda>G vx vy. Inl FetchError), parse_float = (\<lambda>s. None),
              nx_search = (\<lambda>G s t. Inl ValueError)\<rparr>"



text \<open>A point inside the box of \<open>milan_box_manager\<close> and a point south of it.\<close>

definition inside_point :: Coordinate where
  "inside_point = \<lparr>lat = 45.5, lon = 9.5\<rparr>"

definition outside_point :: Coordinate where
  "outside_point = \<lparr>lat = 44.9, lon = 9.5\<rparr>"

section \<open>Basic facts\<close>

lemma compute_duration_value:
  "compute_duration_from_distance d = Inr (if 0 < d then d / (40 * 1000 / 3600) else 0)"
  by (simp add: compute_duration_from_distance_def DEFAULT_SPEED_KMH_def py_div_def)

lemma route_of_path_duration:
  "route_of_path G p = Inr resp \<Longrightarrow>
     compute_duration_from_distance (distance_m resp) = Inr (duration_s resp)"
  by (auto simp: route_of_path_def split: sum.splits prod.splits)

lemma compute_route_InrD:
  assumes "compute_route E m request = (Inr resp, m1)"
  shows "\<exists>G s t p. ensure_graph_for_points E m (origin request) (destination request) = Inr m1
           \<and> graph_of m1 = Some G
           \<and> find_nearest_node E m1 (origin request) = Inr s
           \<and> find_nearest_node E m1 (destination request) = Inr t
           \<and> shortest_path E G s t = Inr p
           \<and> route_of_path G p = Inr resp"
  using assms
  by (auto simp: compute_route_def split: sum.splits option.splits)

lemma dummy_shortest_path: "shortest_path E build_dummy_graph_for_tests 1 3 = Inr [1, 2, 3]"
  by (simp add: shortest_path_def has_node_def build_dummy_graph_for_tests_def dummy_edge_def
      successors_def edge_cost_def attr_weight_def nonnegative_weights_def positive_weights_def
      least_paths_def)

lemma dummy_route_of_path:
  "route_of_path build_dummy_graph_for_tests [1, 2, 3] = Inr test_response"
  by (simp add: route_of_path_def build_coordinates_from_path_def build_steps_from_path_def
      first_edge_data_def build_dummy_graph_for_tests_def dummy_edge_def py_div_def
      DEFAULT_SPEED_KMH_def compute_duration_value MAX_GRAPH_RADIUS_M_def test_response_def)

lemma pytest_ensure_from_scratch:
  "ensure_graph_for_points (E\<lparr>pytest := True\<rparr>) (m\<lparr>graph_of := None\<rparr>) a b = Inr dummy_manager"
  by (simp add: ensure_graph_for_points_def build_graph_for_points_def dummy_manager_def)

lemma dummy_nearest_origin:
  "find_nearest_node (E\<lparr>pytest := True\<rparr>) dummy_manager (origin test_request) = Inr 1"
  by (simp add: find_nearest_node_def dummy_manager_def test_request_def
      build_dummy_graph_for_tests_def)

lemma dummy_nearest_destination:
  "find_nearest_node (E\<lparr>pytest := True\<rparr>) dummy_manager (destination test_request) = Inr 3"
  by (simp add: find_nearest_node_def dummy_manager_def test_request_def
      build_dummy_graph_for_tests_def)

lemma pytest_route_from_scratch:
  "compute_route (E\<lparr>pytest := True\<rparr>) (m\<lparr>graph_of := None\<rparr>) test_request = (Inr test_response, dummy_manager)"
proof -
  have "graph_of dummy_manager = Some build_dummy_graph_for_tests"
    by (simp add: dummy_manager_def)
  then show ?thesis
    unfolding compute_route_def
    by (simp add: pytest_ensure_from_scratch dummy_nearest_origin
        dummy_nearest_destination dummy_shortest_path dummy_route_of_path)
qed

lemma test_route: "compute_route test_env empty_manager test_request = (Inr test_response, dummy_manager)"
  using pytest_route_from_scratch [of test_env empty_manager]
  by (simp add: test_env_def empty_manager_def)

section \<open>The dummy graph\<close>

text \<open>
  Claim C2. On the three-node graph of the tests (nodes 1, 2, 3; edges 1 to 2 of 1000 m,
  2 to 3 of 1500 m, 1 to 3 of 2600 m) the shortest path from 1 to 3 is \<open>[1, 2, 3]\<close>, of
  cost 2500 against 2600 for the direct edge; the route computed under pytest from a
  manager without a graph, for the request of the tests, has distance 2500 m, two steps
  and duration \<open>2500 / (40000 / 3600) = 225\<close> s.
\<close>

theorem dummy_graph_route:
  "map (\<lambda>(n, nd). (n, node_x nd, node_y nd)) (nodes build_dummy_graph_for_tests)
     = [(1, Some 9.19, Some 45.4642), (2, Some 9.22, Some 45.4720), (3, Some 9.25, Some 45.48)]
   \<and> map (\<lambda>(u, v, d). (u, v, weight d)) (edges build_dummy_graph_for_tests)
     = [(1, 2, Some 1000), (2, 3, Some 1500), (1, 3, Some 2600)]
   \<and> shortest_path E build_dummy_graph_for_tests 1 3 = Inr [1, 2, 3]
   \<and> path_cost build_dummy_graph_for_tests [1, 2, 3] = 2500
   \<and> path_cost build_dummy_graph_for_tests [1, 3] = 2600
   \<and> (\<exists>resp. fst (compute_route (E\<lparr>pytest := True\<rparr>) (m\<lparr>graph_of := None\<rparr>) test_request) = Inr resp
          \<and> distance_m resp = 2500
          \<and> length (steps resp) = 2
          \<and> duration_s resp = 2500 / (40000 / 3600)
          \<and> duration_s resp = 225)"
proof -
  have costs: "path_cost build_dummy_graph_for_tests [1, 2, 3] = 2500"
    "path_cost build_dummy_graph_for_tests [1, 3] = 2600"
    by (simp_all add: build_dummy_graph_for_tests_def dummy_edge_def edge_cost_def attr_weight_def)
  have "fst (compute_route (E\<lparr>pytest := True\<rparr>) (m\<lparr>graph_of := None\<rparr>) test_request) = Inr test_response"
    by (simp add: pytest_route_from_scratch)
  moreover have "distance_m test_response = 2500" "length (steps test_response) = 2"
    "duration_s test_response = 2500 / (40000 / 3600)" "duration_s test_response = 225"
    by (simp_all add: test_response_def)
  moreover have "map (\<lambda>(n, nd). (n, node_x nd, node_y nd)) (nodes build_dummy_graph_for_tests)
     = [(1, Some 9.19, Some 45.4642), (2, Some 9.22, Some 45.4720), (3, Some 9.25, Some 45.48)]"
    "map (\<lambda>(u, v, d). (u, v, weight d)) (edges build_dummy_graph_for_tests)
     = [(1, 2, Some 1000), (2, 3, Some 1500), (1, 3, Some 2600)]"
    by (simp_all add: build_dummy_graph_for_tests_def dummy_edge_def)
  ultimately show ?thesis
    using dummy_shortest_path costs by blast
qed

section \<open>Duration\<close>

text \<open>
  Claim C10. The conversion returns the distance divided by 40 km/h in m/s for a positive
  distance and 0 otherwise; it never raises, so it never divides by zero. The duration
  of every computed route is this function of the route's distance, and is not negative.
\<close>

theorem duration_from_distance:
  "compute_duration_from_distance d = Inr (if 0 < d then d / (40 * 1000 / 3600) else 0)
   \<and> (compute_route E m request = (Inr resp, m1) \<longrightarrow>
        duration_s resp = (if 0 < distance_m resp then distance_m resp / (40 * 1000 / 3600) else 0)
        \<and> 0 \<le> duration_s resp)"
proof (intro conjI impI)
  show "compute_duration_from_distance d = Inr (if 0 < d then d / (40 * 1000 / 3600) else 0)"
    by (rule compute_duration_value)
next
  assume "compute_route E m request = (Inr resp, m1)"
  then obtain G p where "route_of_path G p = Inr resp"
    using compute_route_InrD by blast
  then have "compute_duration_from_distance (distance_m resp) = Inr (duration_s resp)"
    by (rule route_of_path_duration)
  then show d: "duration_s resp = (if 0 < distance_m resp then distance_m resp / (40 * 1000 / 3600) else 0)"
    by (simp add: compute_duration_value)
  show "0 \<le> duration_s resp"
    by (simp add: d)
qed

theorem duration_from_distance_witness:
  "compute_route test_env empty_manager test_request = (Inr test_response, dummy_manager)
   \<and> compute_duration_from_distance 2500 = Inr 225
   \<and> duration_s test_response = 2500 / (40 * 1000 / 3600)"
  using duration_from_distance [of 2500 test_env empty_manager test_request test_response dummy_manager]
    test_route
  by (simp add: test_response_def)

section \<open>Containment in the cached box\<close>

lemma bbox_contains_points_iff:
  "bbox_contains_points m a b \<longleftrightarrow>
     (\<exists>north south east west. bbox m = Some (north, south, east, west)
        \<and> south \<le> lat a \<and> lat a \<le> north \<and> west \<le> lon a \<and> lon a \<le> east
        \<and> south \<le> lat b \<and> lat b \<le> north \<and> west \<le> lon b \<and> lon b \<le> east)"
proof (cases "bbox m")
  case None
  then show ?thesis by (simp add: bbox_contains_points_def)
next
  case (Some bx)
  obtain north south east west where bx: "bx = (north, south, east, west)"
    by (cases bx) auto
  show ?thesis
    unfolding bbox_contains_points_def Some bx
    by (simp split: if_splits) blast
qed

section \<open>Nearest nodes\<close>

lemma nearest_loop_found:
  "nearest_loop c ns (a, bd) = (Some n, bd') \<Longrightarrow>
     a = Some n \<or> (\<exists>nd. (n, nd) \<in> set ns \<and> node_x nd \<noteq> None \<and> node_y nd \<noteq> None)"
proof (induction ns arbitrary: a bd)
  case Nil
  then show ?case by simp
next
  case (Cons p ns)
  obtain k nd where p: "p = (k, nd)" by (cases p)
  show ?case
  proof (cases "node_x nd")
    case None
    with Cons.prems p have "nearest_loop c ns (a, bd) = (Some n, bd')" by simp
    from Cons.IH [OF this] show ?thesis by auto
  next
    case (Some vx)
    note sx = this
    show ?thesis
    proof (cases "node_y nd")
      case None
      with Cons.prems p sx have "nearest_loop c ns (a, bd) = (Some n, bd')" by simp
      from Cons.IH [OF this] show ?thesis by auto
    next
      case (Some vy)
      let ?d2 = "(vx - lon c) * (vx - lon c) + (vy - lat c) * (vy - lat c)"
      show ?thesis
      proof (cases "case bd of None \<Rightarrow> True | Some b \<Rightarrow> ?d2 < b")
        case True
        with Cons.prems p sx Some have "nearest_loop c ns (Some k, Some ?d2) = (Some n, bd')"
          by (simp add: Let_def)
        from Cons.IH [OF this] show ?thesis
          using p sx Some by auto
      next
        case False
        with Cons.prems p sx Some have "nearest_loop c ns (a, bd) = (Some n, bd')"
          by (simp add: Let_def)
        from Cons.IH [OF this] show ?thesis by auto
      qed
    qed
  qed
qed

lemma find_nearest_node_entry:
  assumes "find_nearest_node E m c = Inr n" and "graph_of m = Some G"
  shows "\<exists>nd. (n, nd) \<in> set (nodes G) \<and> node_x nd \<noteq> None \<and> node_y nd \<noteq> None"
proof (cases "pytest E")
  case True
  with assms have "fst (nearest_loop c (nodes G) (None, None)) = Some n"
    by (simp add: find_nearest_node_def split: option.splits)
  then obtain bd' where "nearest_loop c (nodes G) (None, None) = (Some n, bd')"
    by (cases "nearest_loop c (nodes G) (None, None)") auto
  from nearest_loop_found [OF this] show ?thesis by simp
next
  case False
  with assms obtain nd where "map_of (nodes G) n = Some nd" "node_x nd \<noteq> None" "node_y nd \<noteq> None"
    by (auto simp: find_nearest_node_def split: sum.splits option.splits if_splits)
  then show ?thesis
    by (meson map_of_SomeD)
qed

lemma find_nearest_node_has_node:
  assumes "find_nearest_node E m c = Inr n" and "graph_of m = Some G"
  shows "has_node G n"
proof -
  from find_nearest_node_entry [OF assms] obtain nd where "(n, nd) \<in> set (nodes G)" by blast
  then show ?thesis
    unfolding has_node_def by force
qed

section \<open>Unreachable targets\<close>

lemma successors_edge: "v \<in> set (successors G u) \<Longrightarrow> (u, v) \<in> edge_rel G"
  by (auto simp: successors_def edge_rel_def)

lemma simple_paths_reach:
  "p \<in> set (simple_paths G k seen u t) \<Longrightarrow> (u, t) \<in> (edge_rel G)\<^sup>*"
proof (induction k arbitrary: seen u p)
  case 0
  then show ?case by (simp split: if_splits)
next
  case (Suc k)
  show ?case
  proof (cases "u = t")
    case True
    then show ?thesis by simp
  next
    case False
    with Suc.prems obtain v p' where v: "v \<in> set (successors G u)"
      and p': "p' \<in> set (simple_paths G k (u # seen) v t)"
      by auto
    from Suc.IH [OF p'] have "(v, t) \<in> (edge_rel G)\<^sup>*" .
    with successors_edge [OF v] show ?thesis
      by (rule converse_rtrancl_into_rtrancl)
  qed
qed

lemma shortest_path_unreachable:
  assumes "has_node G s" and "has_node G t" and "nonnegative_weights G"
    and "(s, t) \<notin> (edge_rel G)\<^sup>*"
  shows "shortest_path E G s t = Inl NetworkXNoPath"
proof -
  from assms(4) have ne: "s \<noteq> t" by auto
  have "simple_paths G (length (nodes G)) [] s t = []"
  proof (rule ccontr)
    assume "simple_paths G (length (nodes G)) [] s t \<noteq> []"
    then obtain p where "p \<in> set (simple_paths G (length (nodes G)) [] s t)"
      by (meson last_in_set)
    from simple_paths_reach [OF this] assms(4) show False by simp
  qed
  with assms(1,2,3) ne show ?thesis
    by (simp add: shortest_path_def)
qed

lemma dummy_no_way_back: "(3, 1) \<notin> (edge_rel build_dummy_graph_for_tests)\<^sup>*"
proof
  assume "(3, 1) \<in> (edge_rel build_dummy_graph_for_tests)\<^sup>*"
  then show False
    by (rule converse_rtranclE)
      (auto simp: edge_rel_def build_dummy_graph_for_tests_def dummy_edge_def)
qed

lemma dummy_weights_nonnegative: "nonnegative_weights build_dummy_graph_for_tests"
  by (simp add: nonnegative_weights_def build_dummy_graph_for_tests_def dummy_edge_def
      attr_weight_def)

lemma reverse_request_steps:
  "ensure_graph_for_points test_env empty_manager (origin reverse_request)
     (destination reverse_request) = Inr dummy_manager"
  "graph_of dummy_manager = Some build_dummy_graph_for_tests"
  "find_nearest_node test_env dummy_manager (origin reverse_request) = Inr 3"
  "find_nearest_node test_env dummy_manager (destination reverse_request) = Inr 1"
proof -
  have E: "test_env = test_env\<lparr>pytest := True\<rparr>" "empty_manager = empty_manager\<lparr>graph_of := None\<rparr>"
    by (simp_all add: test_env_def empty_manager_def)
  show "ensure_graph_for_points test_env empty_manager (origin reverse_request)
     (destination reverse_request) = Inr dummy_manager"
    using pytest_ensure_from_scratch [of test_env empty_manager] E by simp
  show "graph_of dummy_manager = Some build_dummy_graph_for_tests"
    by (simp add: dummy_manager_def)
  show "find_nearest_node test_env dummy_manager (origin reverse_request) = Inr 3"
    by (simp add: find_nearest_node_def dummy_manager_def reverse_request_def test_env_def
        build_dummy_graph_for_tests_def)
  show "find_nearest_node test_env dummy_manager (destination reverse_request) = Inr 1"
    by (simp add: find_nearest_node_def dummy_manager_def reverse_request_def test_env_def
        build_dummy_graph_for_tests_def)
qed

text \<open>
  Claim C1, as the code has it. When the node nearest to the destination is not
  reachable from the node nearest to the origin along the edges of the graph in use,
  and no weight of that graph is negative, the path search raises \<open>NetworkXNoPath\<close>.
  Neither \<open>compute_route\<close> nor the endpoint catches it: both end with that exception,
  so the caller gets an unhandled exception and no response of any kind, and the graph
  ensured for the request stays cached.
\<close>

theorem compute_route_no_path:
  assumes "ensure_graph_for_points E m (origin request) (destination request) = Inr m1"
    and "graph_of m1 = Some G"
    and "find_nearest_node E m1 (origin request) = Inr s"
    and "find_nearest_node E m1 (destination request) = Inr t"
    and "nonnegative_weights G"
    and "(s, t) \<notin> (edge_rel G)\<^sup>*"
  shows "compute_route E m request = (Inl NetworkXNoPath, m1)
         \<and> routes_compute_route E m request = (Inl NetworkXNoPath, m1)"
proof -
  have "has_node G s" "has_node G t"
    using assms(2,3,4) find_nearest_node_has_node by blast+
  then have "shortest_path E G s t = Inl NetworkXNoPath"
    using assms(5,6) by (rule shortest_path_unreachable)
  with assms(1-4) show ?thesis
    by (simp add: routes_compute_route_def compute_route_def)
qed

theorem compute_route_no_path_witness:
  "nonnegative_weights build_dummy_graph_for_tests
   \<and> (3, 1) \<notin> (edge_rel build_dummy_graph_for_tests)\<^sup>*
   \<and> compute_route test_env empty_manager reverse_request = (Inl NetworkXNoPath, dummy_manager)
   \<and> routes_compute_route test_env empty_manager reverse_request
       = (Inl NetworkXNoPath, dummy_manager)"
  using compute_route_no_path [OF reverse_request_steps dummy_weights_nonnegative dummy_no_way_back]
    dummy_weights_nonnegative dummy_no_way_back
  by simp

text \<open>Under pytest the reversed test request, from node 3 to node 1 of the dummy
  graph, which has no edge out of node 3: the outcome of \<open>compute_route\<close> and of the
  endpoint is the raised exception, not a returned value.\<close>

theorem no_route_result_counterexample:
  "routes_compute_route test_env empty_manager reverse_request
     = (Inl NetworkXNoPath, dummy_manager)
   \<and> compute_route test_env empty_manager reverse_request = (Inl NetworkXNoPath, dummy_manager)
   \<and> isl (fst (routes_compute_route test_env empty_manager reverse_request))"
proof -
  have "shortest_path test_env build_dummy_graph_for_tests 3 1 = Inl NetworkXNoPath"
    by (simp add: shortest_path_def has_node_def build_dummy_graph_for_tests_def dummy_edge_def
        successors_def attr_weight_def nonnegative_weights_def)
  then have "compute_route test_env empty_manager reverse_request
               = (Inl NetworkXNoPath, dummy_manager)"
    by (simp add: compute_route_def reverse_request_steps)
  then show ?thesis
    by (simp add: routes_compute_route_def)
qed

section \<open>Origin and destination on one node\<close>

lemma route_of_single_node:
  assumes "map_of (nodes G) n = Some nd" and "node_x nd = Some vx" and "node_y nd = Some vy"
  shows "route_of_path G [n] =
           Inr \<lparr>distance_m = 0, duration_s = 0, geometry = [(vy, vx)],
                summary = \<lparr>summary_distance_m = 0, summary_duration_s = 0,
                           summary_geometry = [(vy, vx)]\<rparr>,
                steps = [], warnings = []\<rparr>"
  using assms
  by (simp add: route_of_path_def build_coordinates_from_path_def build_steps_from_path_def
      compute_duration_value MAX_GRAPH_RADIUS_M_def)

lemma find_nearest_node_lookup:
  assumes "find_nearest_node E m c = Inr n" and "graph_of m = Some G"
    and "distinct (map fst (nodes G))"
  shows "\<exists>nd vx vy. map_of (nodes G) n = Some nd \<and> node_x nd = Some vx \<and> node_y nd = Some vy"
proof -
  from find_nearest_node_entry [OF assms(1,2)] obtain nd
    where "(n, nd) \<in> set (nodes G)" "node_x nd \<noteq> None" "node_y nd \<noteq> None"
    by blast
  with assms(3) show ?thesis
    by (auto dest: map_of_is_SomeI)
qed

text \<open>
  Claim C6. When origin and destination resolve to the same node of the graph in use,
  \<open>compute_route\<close> returns the geometry made of that node's coordinate alone, distance 0,
  duration 0, no steps and no warnings. The node has both coordinates because the lookup
  returned it; the node ids of a graph are distinct, being the keys of a dictionary.
\<close>

theorem compute_route_same_node:
  assumes "ensure_graph_for_points E m (origin request) (destination request) = Inr m1"
    and "graph_of m1 = Some G"
    and "distinct (map fst (nodes G))"
    and "find_nearest_node E m1 (origin request) = Inr n"
    and "find_nearest_node E m1 (destination request) = Inr n"
  shows "\<exists>nd vx vy. map_of (nodes G) n = Some nd \<and> node_x nd = Some vx \<and> node_y nd = Some vy
           \<and> compute_route E m request =
               (Inr \<lparr>distance_m = 0, duration_s = 0, geometry = [(vy, vx)],
                     summary = \<lparr>summary_distance_m = 0, summary_duration_s = 0,
                                summary_geometry = [(vy, vx)]\<rparr>,
                     steps = [], warnings = []\<rparr>, m1)"
proof -
  from find_nearest_node_lookup [OF assms(4,2,3)] obtain nd vx vy
    where nd: "map_of (nodes G) n = Some nd" "node_x nd = Some vx" "node_y nd = Some vy"
    by blast
  have "has_node G n"
    using assms(4,2) by (rule find_nearest_node_has_node)
  then have "shortest_path E G n n = Inr [n]"
    by (simp add: shortest_path_def)
  with assms(1,2,4,5) have "compute_route E m request = (route_of_path G [n], m1)"
    by (simp add: compute_route_def)
  with nd show ?thesis
    by (simp add: route_of_single_node)
qed

theorem compute_route_same_node_witness:
  "compute_route test_env empty_manager same_point_request =
     (Inr \<lparr>distance_m = 0, duration_s = 0, geometry = [(45.4642, 9.19)],
           summary = \<lparr>summary_distance_m = 0, summary_duration_s = 0,
                      summary_geometry = [(45.4642, 9.19)]\<rparr>,
           steps = [], warnings = []\<rparr>, dummy_manager)"
proof -
  have E: "test_env = test_env\<lparr>pytest := True\<rparr>" "empty_manager = empty_manager\<lparr>graph_of := None\<rparr>"
    by (simp_all add: test_env_def empty_manager_def)
  have 1: "ensure_graph_for_points test_env empty_manager (origin same_point_request)
             (destination same_point_request) = Inr dummy_manager"
    using pytest_ensure_from_scratch [of test_env empty_manager] E by simp
  have 2: "graph_of dummy_manager = Some build_dummy_graph_for_tests"
    by (simp add: dummy_manager_def)
  have 3: "distinct (map fst (nodes build_dummy_graph_for_tests))"
    by (simp add: build_dummy_graph_for_tests_def)
  have 4: "find_nearest_node test_env dummy_manager (origin same_point_request) = Inr 1"
    by (simp add: find_nearest_node_def dummy_manager_def same_point_request_def test_env_def
        build_dummy_graph_for_tests_def)
  have 5: "find_nearest_node test_env dummy_manager (destination same_point_request) = Inr 1"
    by (simp add: find_nearest_node_def dummy_manager_def same_point_request_def test_env_def
        build_dummy_graph_for_tests_def)
  have 6: "map_of (nodes build_dummy_graph_for_tests) 1 = Some \<lparr>node_x = Some 9.19, node_y = Some 45.4642\<rparr>"
    by (simp add: build_dummy_graph_for_tests_def)
  from compute_route_same_node [OF 1 2 3 4 5] 6 show ?thesis
    by auto
qed

section \<open>The cache after a request\<close>

lemma compute_route_manager:
  "compute_route E m request = (r, m1) \<Longrightarrow>
     (case ensure_graph_for_points E m (origin request) (destination request) of
        Inl err \<Rightarrow> m1 = m \<and> r = Inl err
      | Inr m' \<Rightarrow> m1 = m')"
  by (auto simp: compute_route_def split: sum.splits option.splits)

lemma compute_route_after_ensure:
  assumes "ensure_graph_for_points E m (origin request) (destination request) = Inr m1"
    and "ensure_graph_for_points E m1 (origin request) (destination request) = Inr m1"
  shows "compute_route E m1 request = compute_route E m request"
  using assms by (simp add: compute_route_def)

text \<open>A request repeated on the manager that the first call left, when that manager
  covers both points, rebuilds nothing and ends as the first call did. This is a fact
  about the cache only: the lookups and the path search are functions here, so that
  two runs of them agree is not a property the embedding can put to the test.\<close>

lemma covered_request_repeats:
  assumes "compute_route E m request = (r, m1)"
    and "graph_of m1 \<noteq> None"
    and "bbox_contains_points m1 (origin request) (destination request)"
  shows "compute_route E m1 request = (r, m1)"
proof -
  have kept: "ensure_graph_for_points E m1 (origin request) (destination request) = Inr m1"
    using assms(2,3) by (auto simp: ensure_graph_for_points_def)
  show ?thesis
  proof (cases "ensure_graph_for_points E m (origin request) (destination request)")
    case (Inl err)
    with compute_route_manager [OF assms(1)] have "m1 = m" by simp
    with kept Inl show ?thesis by simp
  next
    case (Inr m')
    with compute_route_manager [OF assms(1)] have "m1 = m'" by simp
    with Inr kept have "compute_route E m1 request = compute_route E m request"
      by (simp add: compute_route_after_ensure)
    with assms(1) show ?thesis by simp
  qed
qed

section \<open>The haversine distance in exact arithmetic\<close>

lemma sin_half_squared: "2 * (sin (t / 2))\<^sup>2 = 1 - cos (t::real)"
proof -
  have "cos t = cos (2 * (t / 2))" by simp
  also have "\<dots> = 1 - 2 * (sin (t / 2))\<^sup>2" by (rule cos_double_sin)
  finally show ?thesis by simp
qed

lemma sin_half_diff_squared: "(sin ((p - q) / 2))\<^sup>2 = (sin ((q - p) / 2))\<^sup>2" for p q :: real
proof -
  have "(p - q) / 2 = - ((q - p) / 2)" by (simp add: field_simps)
  then have "sin ((p - q) / 2) = - sin ((q - p) / 2)"
    by (simp only: sin_minus)
  then show ?thesis by (simp only: power2_minus)
qed

lemma haversine_h_cos:
  "1 - 2 * haversine_h a b =
     sin (math_radians (lat a)) * sin (math_radians (lat b))
     + cos (math_radians (lat a)) * cos (math_radians (lat b))
       * cos (math_radians (lon b) - math_radians (lon a))"
proof -
  let ?p = "math_radians (lat a)" and ?q = "math_radians (lat b)"
  let ?dl = "math_radians (lon b) - math_radians (lon a)"
  have 1: "2 * (sin ((?q - ?p) / 2))\<^sup>2 = 1 - cos (?q - ?p)"
    by (rule sin_half_squared)
  have 2: "2 * (sin (?dl / 2))\<^sup>2 = 1 - cos ?dl"
    by (rule sin_half_squared)
  have "2 * haversine_h a b =
          2 * (sin ((?q - ?p) / 2))\<^sup>2 + cos ?p * cos ?q * (2 * (sin (?dl / 2))\<^sup>2)"
    by (simp add: haversine_h_def Let_def algebra_simps)
  also have "\<dots> = 1 - cos (?q - ?p) + cos ?p * cos ?q * (1 - cos ?dl)"
    by (simp only: 1 2)
  finally show ?thesis
    by (simp add: cos_diff algebra_simps)
qed

lemma unit_dot_bound:
  fixes s1 s2 c1 c2 cd :: real
  assumes "s1\<^sup>2 + c1\<^sup>2 = 1" and "s2\<^sup>2 + c2\<^sup>2 = 1" and "\<bar>cd\<bar> \<le> 1"
  shows "\<bar>s1 * s2 + c1 * c2 * cd\<bar> \<le> 1"
proof -
  have a: "\<bar>s1 * s2\<bar> \<le> (s1\<^sup>2 + s2\<^sup>2) / 2"
    using sum_squares_bound [of s1 s2] sum_squares_bound [of "- s1" s2]
    by (simp add: abs_le_iff)
  have b: "\<bar>c1 * c2\<bar> \<le> (c1\<^sup>2 + c2\<^sup>2) / 2"
    using sum_squares_bound [of c1 c2] sum_squares_bound [of "- c1" c2]
    by (simp add: abs_le_iff)
  have "\<bar>c1 * c2 * cd\<bar> = \<bar>c1 * c2\<bar> * \<bar>cd\<bar>"
    by (simp add: abs_mult)
  also have "\<dots> \<le> \<bar>c1 * c2\<bar> * 1"
    by (rule mult_left_mono) (use assms(3) in simp_all)
  finally have c: "\<bar>c1 * c2 * cd\<bar> \<le> \<bar>c1 * c2\<bar>" by simp
  have "\<bar>s1 * s2 + c1 * c2 * cd\<bar> \<le> \<bar>s1 * s2\<bar> + \<bar>c1 * c2 * cd\<bar>"
    by (rule abs_triangle_ineq)
  also have "\<dots> \<le> (s1\<^sup>2 + s2\<^sup>2) / 2 + (c1\<^sup>2 + c2\<^sup>2) / 2"
    using a b c by linarith
  also have "\<dots> = 1"
    using assms(1,2) by (simp add: field_simps)
  finally show ?thesis .
qed

lemma haversine_h_range: "0 \<le> haversine_h a b" "haversine_h a b \<le> 1"
proof -
  have "\<bar>1 - 2 * haversine_h a b\<bar> \<le> 1"
    unfolding haversine_h_cos
    by (rule unit_dot_bound) simp_all
  then show "0 \<le> haversine_h a b" "haversine_h a b \<le> 1"
    by linarith+
qed

lemma math_atan2_nonneg: "0 \<le> b \<Longrightarrow> 0 \<le> a \<Longrightarrow> 0 \<le> math_atan2 b a"
  by (simp add: math_atan2_def)

lemma haversine_of_h_defined:
  "0 \<le> h \<Longrightarrow> h \<le> 1 \<Longrightarrow>
     haversine_of_h h = Inr (6371000 * 2 * math_atan2 (sqrt h) (sqrt (1 - h)))"
  by (simp add: haversine_of_h_def math_sqrt_def)

lemma haversine_exact_defined:
  "\<exists>d. haversine_distance_m a b = Inr d \<and> 0 \<le> d"
  using haversine_h_range [of a b]
  by (simp add: haversine_distance_m_def haversine_of_h_defined math_atan2_nonneg)

lemma haversine_h_sym: "haversine_h a b = haversine_h b a"
  unfolding haversine_h_def Let_def
  using sin_half_diff_squared [of "math_radians (lat b)" "math_radians (lat a)"]
    sin_half_diff_squared [of "math_radians (lon b)" "math_radians (lon a)"]
  by (simp add: mult.commute)

lemma haversine_exact_sym: "haversine_distance_m a b = haversine_distance_m b a"
  by (simp add: haversine_distance_m_def haversine_h_sym [of a b])

lemma haversine_exact_self: "haversine_distance_m a a = Inr 0"
  by (simp add: haversine_distance_m_def haversine_h_def haversine_of_h_def math_sqrt_def
      math_atan2_def)

section \<open>The radius of a new graph\<close>

text \<open>
  Claim C4. Outside pytest, with \<open>d\<close> the haversine distance between origin and
  destination, the rebuild asks the map source for the midpoint and the radius
  \<open>min (1.5 * d + 2000) 15000\<close>, and caches what it answers once the weights are
  normalised. For end points 10000 m apart the radius is the cap 15000, for 1000 m
  apart it is 3500.
\<close>

theorem build_graph_radius:
  "(\<not> pytest E \<and> haversine_distance_m a b = Inr d \<longrightarrow>
      build_graph_for_points E m a b =
        (case graph_from_point E ((lat a + lat b) / 2, (lon a + lon b) / 2)
                (min (1.5 * d + 2000) 15000) of
           Inl err \<Rightarrow> Inl err
         | Inr G0 \<Rightarrow>
             (case ensure_numeric_weights E G0 of
                Inl err \<Rightarrow> Inl err
              | Inr G \<Rightarrow>
                  Inr \<lparr>graph_of = Some G,
                       bbox = Some (derive_bbox G ((lat a + lat b) / 2) ((lon a + lon b) / 2))\<rparr>)))
   \<and> radius_m d = min (1.5 * d + 2000) 15000
   \<and> radius_m 10000 = 15000
   \<and> radius_m 1000 = 3500"
  by (simp add: build_graph_for_points_def radius_m_def MAX_GRAPH_RADIUS_M_def Let_def)

lemma dummy_weights_numeric:
  "ensure_numeric_weights E build_dummy_graph_for_tests = Inr build_dummy_graph_for_tests"
  by (simp add: ensure_numeric_weights_def normalise_edge_def build_dummy_graph_for_tests_def
      dummy_edge_def)

lemma dummy_bbox: "derive_bbox build_dummy_graph_for_tests 45.47 9.2 = (45.48, 45.4642, 9.25, 9.19)"
  by (simp add: derive_bbox_def build_dummy_graph_for_tests_def)

theorem build_graph_radius_witness:
  "build_graph_for_points osm_env empty_manager \<lparr>lat = 45.47, lon = 9.2\<rparr> \<lparr>lat = 45.47, lon = 9.2\<rparr> =
     Inr \<lparr>graph_of = Some build_dummy_graph_for_tests,
          bbox = Some (45.48, 45.4642, 9.25, 9.19)\<rparr>"
proof -
  have 1: "\<not> pytest osm_env"
    by (simp add: osm_env_def)
  have 2: "haversine_distance_m \<lparr>lat = 45.47, lon = 9.2\<rparr> \<lparr>lat = 45.47, lon = 9.2\<rparr> = Inr 0"
    by (rule haversine_exact_self)
  have 3: "graph_from_point osm_env c 2000 = Inr build_dummy_graph_for_tests" for c
    by (simp add: osm_env_def)
  from build_graph_radius [of osm_env "\<lparr>lat = 45.47, lon = 9.2\<rparr>" "\<lparr>lat = 45.47, lon = 9.2\<rparr>" 0 empty_manager]
    1 2 dummy_bbox show ?thesis
    by (simp add: 3 dummy_weights_numeric)
qed

section \<open>Coverage of the cached graph\<close>

text \<open>
  Claim C5. A point is contained in the cached box when \<open>south \<le> lat \<le> north\<close> and
  \<open>west \<le> lon \<le> east\<close>. When a graph is cached and the box contains both points,
  \<open>ensure_graph_for_points\<close> leaves the manager as it is. In every other case (no graph,
  no box, or a point outside) it rebuilds and replaces both fields, whatever they held:
  under pytest by the dummy graph and the box of the whole globe; otherwise by the
  graph that the map source returns for the midpoint and the radius, with its weights
  normalised, and the box spanned by the coordinates of its nodes (the midpoint
  widened by one degree when it has none).
\<close>

theorem ensure_graph_rebuilds_iff_uncovered:
  "(bbox_contains_points m a b \<longleftrightarrow>
      (\<exists>north south east west. bbox m = Some (north, south, east, west)
         \<and> south \<le> lat a \<and> lat a \<le> north \<and> west \<le> lon a \<and> lon a \<le> east
         \<and> south \<le> lat b \<and> lat b \<le> north \<and> west \<le> lon b \<and> lon b \<le> east))
   \<and> (graph_of m \<noteq> None \<and> bbox_contains_points m a b
        \<longrightarrow> ensure_graph_for_points E m a b = Inr m)
   \<and> ((graph_of m = None \<or> \<not> bbox_contains_points m a b) \<and> pytest E
        \<longrightarrow> ensure_graph_for_points E m a b
              = Inr \<lparr>graph_of = Some build_dummy_graph_for_tests,
                     bbox = Some (90, -90, 180, -180)\<rparr>)
   \<and> ((graph_of m = None \<or> \<not> bbox_contains_points m a b) \<and> \<not> pytest E
        \<longrightarrow> ensure_graph_for_points E m a b
              = (case haversine_distance_m a b of
                   Inl err \<Rightarrow> Inl err
                 | Inr d \<Rightarrow>
                     (case graph_from_point E ((lat a + lat b) / 2, (lon a + lon b) / 2)
                             (min (1.5 * d + 2000) 15000) of
                        Inl err \<Rightarrow> Inl err
                      | Inr G0 \<Rightarrow>
                          (case ensure_numeric_weights E G0 of
                             Inl err \<Rightarrow> Inl err
                           | Inr G \<Rightarrow>
                               Inr \<lparr>graph_of = Some G,
                                    bbox = Some
                                      (let xs = List.map_filter (\<lambda>(n, nd). node_x nd) (nodes G);
                                           ys = List.map_filter (\<lambda>(n, nd). node_y nd) (nodes G)
                                       in if xs \<noteq> [] \<and> ys \<noteq> []
                                          then (max_of ys, min_of ys, max_of xs, min_of xs)
                                          else ((lat a + lat b) / 2 + 1, (lat a + lat b) / 2 - 1,
                                                (lon a + lon b) / 2 + 1,
                                                (lon a + lon b) / 2 - 1))\<rparr>))))"
proof (intro conjI impI)
  show "bbox_contains_points m a b \<longleftrightarrow>
      (\<exists>north south east west. bbox m = Some (north, south, east, west)
         \<and> south \<le> lat a \<and> lat a \<le> north \<and> west \<le> lon a \<and> lon a \<le> east
         \<and> south \<le> lat b \<and> lat b \<le> north \<and> west \<le> lon b \<and> lon b \<le> east)"
    by (rule bbox_contains_points_iff)
next
  assume "graph_of m \<noteq> None \<and> bbox_contains_points m a b"
  then show "ensure_graph_for_points E m a b = Inr m"
    by (auto simp: ensure_graph_for_points_def)
next
  assume "(graph_of m = None \<or> \<not> bbox_contains_points m a b) \<and> pytest E"
  then show "ensure_graph_for_points E m a b
              = Inr \<lparr>graph_of = Some build_dummy_graph_for_tests,
                     bbox = Some (90, -90, 180, -180)\<rparr>"
    by (auto simp: ensure_graph_for_points_def build_graph_for_points_def)
next
  assume "(graph_of m = None \<or> \<not> bbox_contains_points m a b) \<and> \<not> pytest E"
  then have "ensure_graph_for_points E m a b = build_graph_for_points E m a b" "\<not> pytest E"
    by (auto simp: ensure_graph_for_points_def)
  then show "ensure_graph_for_points E m a b
              = (case haversine_distance_m a b of
                   Inl err \<Rightarrow> Inl err
                 | Inr d \<Rightarrow>
                     (case graph_from_point E ((lat a + lat b) / 2, (lon a + lon b) / 2)
                             (min (1.5 * d + 2000) 15000) of
                        Inl err \<Rightarrow> Inl err
                      | Inr G0 \<Rightarrow>
                          (case ensure_numeric_weights E G0 of
                             Inl err \<Rightarrow> Inl err
                           | Inr G \<Rightarrow>
                               Inr \<lparr>graph_of = Some G,
                                    bbox = Some
                                      (let xs = List.map_filter (\<lambda>(n, nd). node_x nd) (nodes G);
                                           ys = List.map_filter (\<lambda>(n, nd). node_y nd) (nodes G)
                                       in if xs \<noteq> [] \<and> ys \<noteq> []
                                          then (max_of ys, min_of ys, max_of xs, min_of xs)
                                          else ((lat a + lat b) / 2 + 1, (lat a + lat b) / 2 - 1,
                                                (lon a + lon b) / 2 + 1,
                                                (lon a + lon b) / 2 - 1))\<rparr>)))"
    by (simp add: build_graph_for_points_def radius_m_def MAX_GRAPH_RADIUS_M_def derive_bbox_def
        Let_def split: sum.splits)
qed

theorem ensure_graph_rebuilds_witness:
  "ensure_graph_for_points test_env milan_box_manager inside_point inside_point
     = Inr milan_box_manager
   \<and> ensure_graph_for_points test_env milan_box_manager inside_point outside_point
     = Inr dummy_manager
   \<and> ensure_graph_for_points test_env empty_manager inside_point inside_point
     = Inr dummy_manager
   \<and> ensure_graph_for_points osm_env milan_box_manager outside_point outside_point
     = Inr \<lparr>graph_of = Some build_dummy_graph_for_tests,
            bbox = Some (45.48, 45.4642, 9.25, 9.19)\<rparr>"
proof -
  have pt: "pytest test_env" "\<not> pytest osm_env"
    by (simp_all add: test_env_def osm_env_def)
  have gr: "graph_of milan_box_manager \<noteq> None" "graph_of empty_manager = None"
    by (simp_all add: milan_box_manager_def empty_manager_def)
  have inside: "bbox_contains_points milan_box_manager inside_point inside_point"
    by (simp add: bbox_contains_points_def milan_box_manager_def inside_point_def)
  have outside: "\<not> bbox_contains_points milan_box_manager inside_point outside_point"
    "\<not> bbox_contains_points milan_box_manager outside_point outside_point"
    by (simp_all add: bbox_contains_points_def milan_box_manager_def inside_point_def
        outside_point_def)
  have 1: "ensure_graph_for_points test_env milan_box_manager inside_point inside_point
     = Inr milan_box_manager"
    using ensure_graph_rebuilds_iff_uncovered
      [of milan_box_manager inside_point inside_point test_env] gr inside
    by blast
  have 2: "ensure_graph_for_points test_env milan_box_manager inside_point outside_point
     = Inr dummy_manager"
    using ensure_graph_rebuilds_iff_uncovered
      [of milan_box_manager inside_point outside_point test_env] pt outside
    unfolding dummy_manager_def by blast
  have 3: "ensure_graph_for_points test_env empty_manager inside_point inside_point
     = Inr dummy_manager"
    using ensure_graph_rebuilds_iff_uncovered
      [of empty_manager inside_point inside_point test_env] pt gr
    unfolding dummy_manager_def by blast
  have h: "haversine_distance_m outside_point outside_point = Inr 0"
    by (rule haversine_exact_self)
  have g: "graph_from_point osm_env c 2000 = Inr build_dummy_graph_for_tests" for c
    by (simp add: osm_env_def)
  have b: "(let xs = List.map_filter (\<lambda>(n, nd). node_x nd) (nodes build_dummy_graph_for_tests);
               ys = List.map_filter (\<lambda>(n, nd). node_y nd) (nodes build_dummy_graph_for_tests)
           in if xs \<noteq> [] \<and> ys \<noteq> []
              then (max_of ys, min_of ys, max_of xs, min_of xs)
              else (clat + 1, clat - 1, clon + 1, clon - 1)) = (45.48, 45.4642, 9.25, 9.19)"
    for clat clon :: real
    by (simp add: build_dummy_graph_for_tests_def)
  have "ensure_graph_for_points osm_env milan_box_manager outside_point outside_point
     = (case haversine_distance_m outside_point outside_point of
          Inl err \<Rightarrow> Inl err
        | Inr d \<Rightarrow>
            (case graph_from_point osm_env
                    ((lat outside_point + lat outside_point) / 2,
                     (lon outside_point + lon outside_point) / 2)
                    (min (1.5 * d + 2000) 15000) of
               Inl err \<Rightarrow> Inl err
             | Inr G0 \<Rightarrow>
                 (case ensure_numeric_weights osm_env G0 of
                    Inl err \<Rightarrow> Inl err
                  | Inr G \<Rightarrow>
                      Inr \<lparr>graph_of = Some G,
                           bbox = Some
                             (let xs = List.map_filter (\<lambda>(n, nd). node_x nd) (nodes G);
                                  ys = List.map_filter (\<lambda>(n, nd). node_y nd) (nodes G)
                              in if xs \<noteq> [] \<and> ys \<noteq> []
                                 then (max_of ys, min_of ys, max_of xs, min_of xs)
                                 else ((lat outside_point + lat outside_point) / 2 + 1,
                                       (lat outside_point + lat outside_point) / 2 - 1,
                                       (lon outside_point + lon outside_point) / 2 + 1,
                                       (lon outside_point + lon outside_point) / 2 - 1))\<rparr>)))"
    using ensure_graph_rebuilds_iff_uncovered
      [of milan_box_manager outside_point outside_point osm_env] pt outside
    by blast
  also have "\<dots> = Inr \<lparr>graph_of = Some build_dummy_graph_for_tests,
                        bbox = Some (45.48, 45.4642, 9.25, 9.19)\<rparr>"
    unfolding h by (simp add: g dummy_weights_numeric b del: Let_def)
  finally have 4: "ensure_graph_for_points osm_env milan_box_manager outside_point outside_point
     = Inr \<lparr>graph_of = Some build_dummy_graph_for_tests,
            bbox = Some (45.48, 45.4642, 9.25, 9.19)\<rparr>" .
  show ?thesis using 1 2 3 4 by simp
qed

section \<open>The haversine distance in double arithmetic\<close>

text \<open>
  Claim C7. In exact arithmetic the distance is defined for every pair of coordinates,
  is not negative, is 0 from a point to itself and is symmetric: the lemmas
  \<open>haversine_exact_defined\<close>, \<open>haversine_exact_self\<close> and \<open>haversine_exact_sym\<close>. They
  rest on \<open>h \<le> 1\<close>, which the code does not enforce: it passes \<open>1 - h\<close> to \<open>math.sqrt\<close>
  as computed. In double arithmetic \<open>h\<close> can round to the next double above 1, which is
  \<open>1 + 1 / 2 ^ 52\<close>, for antipodal points; the returned expression then raises
  \<open>ValueError\<close>.
\<close>

theorem haversine_rounded_h_raises:
  "haversine_of_h (1 + 1 / 2 ^ 52) = Inl ValueError"
  by (simp add: haversine_of_h_def math_sqrt_def)

section \<open>Edges that normalisation leaves without a weight\<close>

lemma normalise_edge_unweighted:
  assumes "length_attr d = None \<or> length_attr d = Some Obj
             \<or> (\<exists>s. length_attr d = Some (Str s) \<and> parse_float E s = None)"
    and "map_of (nodes G) u = Some nu" and "map_of (nodes G) v = Some nv"
    and "node_x nu = None \<or> node_y nu = None \<or> node_x nv = None \<or> node_y nv = None"
  shows "normalise_edge E G (u, v, d) = Inr (u, v, d)"
  using assms
  by (auto simp: normalise_edge_def split: option.splits pyval.splits)

lemma normalise_edges_member:
  "normalise_edges E G es = Inr es' \<Longrightarrow> e \<in> set es \<Longrightarrow> normalise_edge E G e = Inr e'
     \<Longrightarrow> e' \<in> set es'"
  by (induction es arbitrary: es') (auto split: sum.splits)

lemma ensure_numeric_weights_parts:
  "ensure_numeric_weights E G = Inr G' \<Longrightarrow>
     nodes G' = nodes G \<and> normalise_edges E G (edges G) = Inr (edges G')"
  by (auto simp: ensure_numeric_weights_def split: sum.splits)

lemma unweighted_edge_kept:
  assumes "ensure_numeric_weights E G = Inr G'"
    and "(u, v, d) \<in> set (edges G)"
    and "length_attr d = None \<or> length_attr d = Some Obj
           \<or> (\<exists>s. length_attr d = Some (Str s) \<and> parse_float E s = None)"
    and "map_of (nodes G) u = Some nu" and "map_of (nodes G) v = Some nv"
    and "node_x nu = None \<or> node_y nu = None \<or> node_x nv = None \<or> node_y nv = None"
  shows "(u, v, d) \<in> set (edges G')"
proof -
  have "normalise_edge E G (u, v, d) = Inr (u, v, d)"
    using assms(3,4,5,6) by (rule normalise_edge_unweighted)
  with ensure_numeric_weights_parts [OF assms(1)] assms(2) show ?thesis
    using normalise_edges_member by blast
qed



end
